theory Spec2Isabelle
  imports Main "HOL-Library.Char_ord" "HOL-Library.List_Lexorder"
begin

section \<open>Data model\<close>

text \<open>
  A shallow embedding of the secrets vault (\<^verbatim>\<open>vault.go\<close>, \<^verbatim>\<open>crypto.go\<close> and the command
  functions of package main; \<^verbatim>\<open>internal/vault\<close> and \<^verbatim>\<open>internal/cli\<close> hold the same
  functions under shorter names, statement for statement).

  A Go \<^verbatim>\<open>string\<close> and a Go \<^verbatim>\<open>[]byte\<close> are both sequences of bytes, so both are
  \<^typ>\<open>string\<close> here (a \<^typ>\<open>char\<close> is one byte) and the conversions between them are
  the identity.
\<close>

type_synonym bytes = string

text \<open>\<^verbatim>\<open>type VaultFile struct { Version int; Salt, Nonce, Data string }\<close>\<close>

record VaultFile =
  Version :: int
  Salt :: string
  Nonce :: string
  Data :: string

text \<open>
  \<^verbatim>\<open>type SecretsData struct { Secrets map[string]string }\<close>. A Go map value may be
  \<^verbatim>\<open>nil\<close> (\<open>None\<close> here): reading and deleting treat it as empty, assigning to an
  entry of it panics.
\<close>

record SecretsData =
  Secrets :: "(string \<rightharpoonup> string) option"

text \<open>
  Every \<^verbatim>\<open>error\<close> the program returns or prints, named after its message. An error
  made by \<^verbatim>\<open>fmt.Errorf("...: %w", err)\<close> around the error of a function of this program
  carries that error.
\<close>

datatype error =
    HomeDirError
  | StatError
  | ReadVaultFileError
  | ParseVaultFileError
  | DecodeSaltError
  | DecodeNonceError
  | DecodeDataError
  | CreateCipherError
  | DecryptError
  | DecryptVaultError error
  | ParseSecretsError
  | SerializeSecretsError
  | GenerateSaltError
  | GenerateNonceError
  | EncryptVaultError error
  | SerializeVaultError
  | WriteVaultFileError
  | ReadPasswordError
  | VaultAlreadyExists
  | VaultDoesNotExist
  | PasswordTooShort
  | PasswordsDoNotMatch
  | SecretNotFound string

text \<open>
  What a call does: it returns a value, returns an error (for a command: prints
  \<^verbatim>\<open>Error: ...\<close> and exits with status 1), or panics.
\<close>

datatype 'a go = Returns 'a | Fails error | Panics string

section \<open>The packages the program imports\<close>

text \<open>
  The functions of \<^verbatim>\<open>golang.org/x/crypto/argon2\<close>, \<^verbatim>\<open>crypto/aes\<close> and
  \<^verbatim>\<open>crypto/cipher\<close>, \<^verbatim>\<open>encoding/base64\<close>, \<^verbatim>\<open>encoding/json\<close> and
  \<^verbatim>\<open>path/filepath\<close> are not code of this repository. They are parameters of the model:
  \<^item> \<open>argon2_IDKey password salt time memory threads keyLen\<close>;
  \<^item> \<open>aes_gcm_seal key nonce plaintext\<close> is the ciphertext with its tag, and
    \<open>aes_gcm_open key nonce ciphertext\<close> the plaintext, or \<open>None\<close> when authentication
    fails (both for a key and a nonce of a valid length, which \<open>aes_NewCipher\<close>,
    \<open>gcm_Seal\<close> and \<open>gcm_Open\<close> below check as the packages do);
  \<^item> \<open>None\<close> from a decoder or an encoder is its \<^verbatim>\<open>err != nil\<close>.
\<close>

record lib =
  filepath_Join :: "string \<Rightarrow> string \<Rightarrow> string"
  argon2_IDKey :: "bytes \<Rightarrow> bytes \<Rightarrow> nat \<Rightarrow> nat \<Rightarrow> nat \<Rightarrow> nat \<Rightarrow> bytes"
  aes_gcm_seal :: "bytes \<Rightarrow> bytes \<Rightarrow> bytes \<Rightarrow> bytes"
  aes_gcm_open :: "bytes \<Rightarrow> bytes \<Rightarrow> bytes \<Rightarrow> bytes option"
  base64_EncodeToString :: "bytes \<Rightarrow> string"
  base64_DecodeString :: "string \<Rightarrow> bytes option"
  json_Marshal_SecretsData :: "SecretsData \<Rightarrow> bytes option"
  json_Unmarshal_SecretsData :: "bytes \<Rightarrow> SecretsData option"
  json_MarshalIndent_VaultFile :: "VaultFile \<Rightarrow> bytes option"
  json_Unmarshal_VaultFile :: "bytes \<Rightarrow> VaultFile option"

text \<open>
  \<^verbatim>\<open>aes.NewCipher(key)\<close> returns a \<^verbatim>\<open>KeySizeError\<close> unless the key has 16, 24 or 32
  bytes; \<^verbatim>\<open>cipher.NewGCM\<close> of an AES block never fails. \<^verbatim>\<open>Seal\<close> and \<^verbatim>\<open>Open\<close> of the
  resulting AEAD panic with \<^verbatim>\<open>crypto/cipher: incorrect nonce length given to GCM\<close>
  when the nonce does not have \<^verbatim>\<open>NonceSize()\<close> = 12 bytes.
\<close>

definition aes_NewCipher :: "bytes \<Rightarrow> bool" where
  "aes_NewCipher key = (length key = 16 \<or> length key = 24 \<or> length key = 32)"

definition gcm_Seal :: "lib \<Rightarrow> bytes \<Rightarrow> bytes \<Rightarrow> bytes \<Rightarrow> bytes go" where
  "gcm_Seal L key nonce plaintext =
     (if length nonce \<noteq> 12 then Panics ''crypto/cipher: incorrect nonce length given to GCM''
      else Returns (aes_gcm_seal L key nonce plaintext))"

definition gcm_Open :: "lib \<Rightarrow> bytes \<Rightarrow> bytes \<Rightarrow> bytes \<Rightarrow> bytes go" where
  "gcm_Open L key nonce ciphertext =
     (if length nonce \<noteq> 12 then Panics ''crypto/cipher: incorrect nonce length given to GCM''
      else case aes_gcm_open L key nonce ciphertext of
             None \<Rightarrow> Fails DecryptError
           | Some plaintext \<Rightarrow> Returns plaintext)"

section \<open>The machine the program runs on\<close>

text \<open>
  The state outside the process: the home directory (\<open>None\<close> when
  \<^verbatim>\<open>os.UserHomeDir\<close> fails), the files by path, the bytes the secure random generator
  will hand out next (\<^verbatim>\<open>rand.Read\<close> fails when it cannot fill the buffer), the lines the
  terminal will supply, and the faults of the file system: \<^verbatim>\<open>os.Stat\<close> or
  \<^verbatim>\<open>os.ReadFile\<close> failing for a reason other than a missing file, and
  \<^verbatim>\<open>os.WriteFile\<close> failing.
\<close>

datatype write_fault = NoFault | OpenFault | WriteFault nat

record world =
  home :: "string option"
  files :: "string \<rightharpoonup> bytes"
  entropy :: bytes
  tty :: "string list"
  stat_fault :: bool
  read_fault :: bool
  write_fault :: write_fault

text \<open>
  \<^verbatim>\<open>os.WriteFile(name, data, perm)\<close> opens the file with
  \<^verbatim>\<open>O_WRONLY|O_CREATE|O_TRUNC\<close>, writes and closes; its documentation: "if the file
  does not exist, WriteFile creates it with permissions perm; otherwise WriteFile truncates
  it before writing. Since WriteFile requires multiple system calls to complete, a failure
  mid-operation can leave the file in a partially written state." \<open>OpenFault\<close> is a
  failure to open (nothing changes), \<open>WriteFault n\<close> a failure after the truncation
  and \<open>n\<close> bytes. Permission bits are not part of the state.
\<close>

definition os_WriteFile :: "world \<Rightarrow> string \<Rightarrow> bytes \<Rightarrow> nat \<Rightarrow> bool \<times> world" where
  "os_WriteFile w name d perm =
     (case write_fault w of
        OpenFault \<Rightarrow> (False, w)
      | WriteFault n \<Rightarrow> (False, w\<lparr>files := (files w)(name \<mapsto> take n d)\<rparr>)
      | NoFault \<Rightarrow> (True, w\<lparr>files := (files w)(name \<mapsto> d)\<rparr>))"

definition os_ReadFile :: "world \<Rightarrow> string \<Rightarrow> bytes option" where
  "os_ReadFile w name = (if read_fault w then None else files w name)"

datatype stat = StatOk | StatNotExist | StatOther

definition os_Stat :: "world \<Rightarrow> string \<Rightarrow> stat" where
  "os_Stat w name =
     (if stat_fault w then StatOther
      else if files w name = None then StatNotExist else StatOk)"

definition rand_Read :: "world \<Rightarrow> nat \<Rightarrow> bytes option \<times> world" where
  "rand_Read w n =
     (if length (entropy w) < n then (None, w)
      else (Some (take n (entropy w)), w\<lparr>entropy := drop n (entropy w)\<rparr>))"

text \<open>\<^verbatim>\<open>term.ReadPassword\<close>: the next line of the terminal, or an error.\<close>

definition readPassword :: "world \<Rightarrow> string go \<times> world" where
  "readPassword w =
     (case tty w of
        [] \<Rightarrow> (Fails ReadPasswordError, w)
      | l # ls \<Rightarrow> (Returns l, w\<lparr>tty := ls\<rparr>))"

section \<open>crypto.go\<close>

definition SaltSize :: nat where "SaltSize = 16"
definition NonceSize :: nat where "NonceSize = 12"
definition KeySize :: nat where "KeySize = 32"
definition ArgonTime :: nat where "ArgonTime = 1"
definition ArgonMem :: nat where "ArgonMem = 64 * 1024"
definition ArgonThreads :: nat where "ArgonThreads = 4"

definition DeriveKey :: "lib \<Rightarrow> string \<Rightarrow> bytes \<Rightarrow> bytes" where
  "DeriveKey L password salt =
     argon2_IDKey L password salt ArgonTime ArgonMem ArgonThreads KeySize"

definition GenerateSalt :: "world \<Rightarrow> bytes go \<times> world" where
  "GenerateSalt w =
     (case rand_Read w SaltSize of
        (None, w') \<Rightarrow> (Fails GenerateSaltError, w')
      | (Some salt, w') \<Rightarrow> (Returns salt, w'))"

definition Encrypt :: "lib \<Rightarrow> world \<Rightarrow> bytes \<Rightarrow> bytes \<Rightarrow> (bytes \<times> bytes) go \<times> world" where
  "Encrypt L w plaintext key =
     (if \<not> aes_NewCipher key then (Fails CreateCipherError, w)
      else case rand_Read w NonceSize of
             (None, w') \<Rightarrow> (Fails GenerateNonceError, w')
           | (Some nonce, w') \<Rightarrow>
               (case gcm_Seal L key nonce plaintext of
                  Returns ciphertext \<Rightarrow> (Returns (nonce, ciphertext), w')
                | Fails e \<Rightarrow> (Fails e, w')
                | Panics p \<Rightarrow> (Panics p, w')))"

definition Decrypt :: "lib \<Rightarrow> bytes \<Rightarrow> bytes \<Rightarrow> bytes \<Rightarrow> bytes go" where
  "Decrypt L ciphertext nonce key =
     (if \<not> aes_NewCipher key then Fails CreateCipherError
      else gcm_Open L key nonce ciphertext)"

section \<open>vault.go\<close>

definition VaultFileName :: string where
  "VaultFileName = ''.secrets-vault.json''"

definition GetVaultPath :: "lib \<Rightarrow> world \<Rightarrow> string go" where
  "GetVaultPath L w =
     (case home w of
        None \<Rightarrow> Fails HomeDirError
      | Some h \<Rightarrow> Returns (filepath_Join L h VaultFileName))"

definition VaultExists :: "lib \<Rightarrow> world \<Rightarrow> bool go" where
  "VaultExists L w =
     (case GetVaultPath L w of
        Fails e \<Rightarrow> Fails e
      | Panics p \<Rightarrow> Panics p
      | Returns path \<Rightarrow>
          (case os_Stat w path of
             StatNotExist \<Rightarrow> Returns False
           | StatOther \<Rightarrow> Fails StatError
           | StatOk \<Rightarrow> Returns True))"

definition LoadVault :: "lib \<Rightarrow> world \<Rightarrow> string \<Rightarrow> (SecretsData \<times> bytes) go" where
  "LoadVault L w password =
     (case GetVaultPath L w of
        Fails e \<Rightarrow> Fails e
      | Panics p \<Rightarrow> Panics p
      | Returns path \<Rightarrow>
     (case os_ReadFile w path of
        None \<Rightarrow> Fails ReadVaultFileError
      | Some fileData \<Rightarrow>
     (case json_Unmarshal_VaultFile L fileData of
        None \<Rightarrow> Fails ParseVaultFileError
      | Some vault \<Rightarrow>
     (case base64_DecodeString L (Salt vault) of
        None \<Rightarrow> Fails DecodeSaltError
      | Some salt \<Rightarrow>
     (case base64_DecodeString L (Nonce vault) of
        None \<Rightarrow> Fails DecodeNonceError
      | Some nonce \<Rightarrow>
     (case base64_DecodeString L (Data vault) of
        None \<Rightarrow> Fails DecodeDataError
      | Some ciphertext \<Rightarrow>
     (case Decrypt L ciphertext nonce (DeriveKey L password salt) of
        Fails e \<Rightarrow> Fails (DecryptVaultError e)
      | Panics p \<Rightarrow> Panics p
      | Returns plaintext \<Rightarrow>
     (case json_Unmarshal_SecretsData L plaintext of
        None \<Rightarrow> Fails ParseSecretsError
      | Some secrets \<Rightarrow> Returns (secrets, salt)))))))))"

definition SaveVault :: "lib \<Rightarrow> world \<Rightarrow> SecretsData \<Rightarrow> string \<Rightarrow> bytes \<Rightarrow> unit go \<times> world" where
  "SaveVault L w data password salt =
     (case GetVaultPath L w of
        Fails e \<Rightarrow> (Fails e, w)
      | Panics p \<Rightarrow> (Panics p, w)
      | Returns path \<Rightarrow>
     (case json_Marshal_SecretsData L data of
        None \<Rightarrow> (Fails SerializeSecretsError, w)
      | Some plaintext \<Rightarrow>
     (case Encrypt L w plaintext (DeriveKey L password salt) of
        (Fails e, w') \<Rightarrow> (Fails (EncryptVaultError e), w')
      | (Panics p, w') \<Rightarrow> (Panics p, w')
      | (Returns (nonce, ciphertext), w') \<Rightarrow>
     (case json_MarshalIndent_VaultFile L
             \<lparr>Version = 1,
              Salt = base64_EncodeToString L salt,
              Nonce = base64_EncodeToString L nonce,
              Data = base64_EncodeToString L ciphertext\<rparr> of
        None \<Rightarrow> (Fails SerializeVaultError, w')
      | Some fileData \<Rightarrow>
     (case os_WriteFile w' path fileData 384 of
        (False, w'') \<Rightarrow> (Fails WriteVaultFileError, w'')
      | (True, w'') \<Rightarrow> (Returns (), w''))))))"

definition CreateVault :: "lib \<Rightarrow> world \<Rightarrow> string \<Rightarrow> unit go \<times> world" where
  "CreateVault L w password =
     (case GenerateSalt w of
        (Fails e, w') \<Rightarrow> (Fails e, w')
      | (Panics p, w') \<Rightarrow> (Panics p, w')
      | (Returns salt, w') \<Rightarrow>
          SaveVault L w' \<lparr>Secrets = Some Map.empty\<rparr> password salt)"

text \<open>
  The envelope that \<open>SaveVault\<close> assembles from the salt, the nonce drawn by
  \<open>Encrypt\<close> and the serialized secrets (a name for the record built in its body).
\<close>

definition envelope_of :: "lib \<Rightarrow> string \<Rightarrow> bytes \<Rightarrow> bytes \<Rightarrow> bytes \<Rightarrow> VaultFile" where
  "envelope_of L password salt nonce plaintext =
     \<lparr>Version = 1,
      Salt = base64_EncodeToString L salt,
      Nonce = base64_EncodeToString L nonce,
      Data = base64_EncodeToString L
               (aes_gcm_seal L (DeriveKey L password salt) nonce plaintext)\<rparr>"

section \<open>The commands\<close>

text \<open>
  A command that prints \<^verbatim>\<open>Error: ...\<close> and calls \<^verbatim>\<open>os.Exit(1)\<close> is \<open>Fails\<close>
  with the error printed; one that runs to its end is \<open>Returns\<close> with the line it
  prints last.
\<close>

datatype message =
    VaultCreated
  | SecretUpdated string
  | SecretAdded string
  | SecretDeleted string

definition cmdInit :: "lib \<Rightarrow> world \<Rightarrow> message go \<times> world" where
  "cmdInit L w =
     (case VaultExists L w of
        Fails e \<Rightarrow> (Fails e, w)
      | Panics p \<Rightarrow> (Panics p, w)
      | Returns True \<Rightarrow> (Fails VaultAlreadyExists, w)
      | Returns False \<Rightarrow>
     (case readPassword w of
        (Fails e, w1) \<Rightarrow> (Fails e, w1)
      | (Panics p, w1) \<Rightarrow> (Panics p, w1)
      | (Returns password, w1) \<Rightarrow>
          if length password < 8 then (Fails PasswordTooShort, w1)
          else
     (case readPassword w1 of
        (Fails e, w2) \<Rightarrow> (Fails e, w2)
      | (Panics p, w2) \<Rightarrow> (Panics p, w2)
      | (Returns confirm, w2) \<Rightarrow>
          if password \<noteq> confirm then (Fails PasswordsDoNotMatch, w2)
          else
     (case CreateVault L w2 password of
        (Fails e, w3) \<Rightarrow> (Fails e, w3)
      | (Panics p, w3) \<Rightarrow> (Panics p, w3)
      | (Returns u, w3) \<Rightarrow> (Returns VaultCreated, w3)))))"

definition cmdSet :: "lib \<Rightarrow> world \<Rightarrow> string \<Rightarrow> message go \<times> world" where
  "cmdSet L w key =
     (case VaultExists L w of
        Fails e \<Rightarrow> (Fails e, w)
      | Panics p \<Rightarrow> (Panics p, w)
      | Returns False \<Rightarrow> (Fails VaultDoesNotExist, w)
      | Returns True \<Rightarrow>
     (case readPassword w of
        (Fails e, w1) \<Rightarrow> (Fails e, w1)
      | (Panics p, w1) \<Rightarrow> (Panics p, w1)
      | (Returns password, w1) \<Rightarrow>
     (case LoadVault L w1 password of
        Fails e \<Rightarrow> (Fails e, w1)
      | Panics p \<Rightarrow> (Panics p, w1)
      | Returns (data, salt) \<Rightarrow>
     (case readPassword w1 of
        (Fails e, w2) \<Rightarrow> (Fails e, w2)
      | (Panics p, w2) \<Rightarrow> (Panics p, w2)
      | (Returns v, w2) \<Rightarrow>
     (case Secrets data of
        None \<Rightarrow> (Panics ''assignment to entry in nil map'', w2)
      | Some m \<Rightarrow>
     (case SaveVault L w2 \<lparr>Secrets = Some (m(key \<mapsto> v))\<rparr> password salt of
        (Fails e, w3) \<Rightarrow> (Fails e, w3)
      | (Panics p, w3) \<Rightarrow> (Panics p, w3)
      | (Returns u, w3) \<Rightarrow>
          if m key \<noteq> None then (Returns (SecretUpdated key), w3)
          else (Returns (SecretAdded key), w3)))))))"

definition cmdDelete :: "lib \<Rightarrow> world \<Rightarrow> string \<Rightarrow> message go \<times> world" where
  "cmdDelete L w key =
     (case VaultExists L w of
        Fails e \<Rightarrow> (Fails e, w)
      | Panics p \<Rightarrow> (Panics p, w)
      | Returns False \<Rightarrow> (Fails VaultDoesNotExist, w)
      | Returns True \<Rightarrow>
     (case readPassword w of
        (Fails e, w1) \<Rightarrow> (Fails e, w1)
      | (Panics p, w1) \<Rightarrow> (Panics p, w1)
      | (Returns password, w1) \<Rightarrow>
     (case LoadVault L w1 password of
        Fails e \<Rightarrow> (Fails e, w1)
      | Panics p \<Rightarrow> (Panics p, w1)
      | Returns (data, salt) \<Rightarrow>
     (case (case Secrets data of None \<Rightarrow> None | Some m \<Rightarrow> m key) of
        None \<Rightarrow> (Fails (SecretNotFound key), w1)
      | Some old \<Rightarrow>
     (case SaveVault L w1
             \<lparr>Secrets = map_option (\<lambda>m. m(key := None)) (Secrets data)\<rparr> password salt of
        (Fails e, w3) \<Rightarrow> (Fails e, w3)
      | (Panics p, w3) \<Rightarrow> (Panics p, w3)
      | (Returns u, w3) \<Rightarrow> (Returns (SecretDeleted key), w3))))))"

section \<open>An instance of the packages, for evaluation\<close>

text \<open>
  To run the program on a concrete input, the parameters need values. \<open>ref_lib\<close>
  gives them:
  \<^item> base64 is \<^verbatim>\<open>base64.StdEncoding\<close>: the standard alphabet with \<^verbatim>\<open>=\<close> padding;
    \<^verbatim>\<open>DecodeString\<close> skips CR and LF, wants whole padded quanta with nothing after
    the padding, and (the encoding is not \<^verbatim>\<open>Strict()\<close>) ignores the bits of the last
    character that belong to no byte;
  \<^item> \<^verbatim>\<open>json.Marshal\<close> and \<^verbatim>\<open>json.MarshalIndent\<close> write what \<^verbatim>\<open>encoding/json\<close>
    writes for the two structs: field order, the keys of a map in sorted order, and
    strings "coerced to valid UTF-8, replacing invalid bytes with the Unicode
    replacement rune", with the escapes of the package (HTML characters included);
  \<^item> \<^verbatim>\<open>json.Unmarshal\<close> is a reader of the objects that the two functions above write
    (fields in that order, any white space between tokens); \<^verbatim>\<open>encoding/json\<close> accepts
    more inputs than it;
  \<^item> the key derivation and the AEAD are stand-ins with the shape of the real ones (a key
    of the length asked for; the plaintext followed by 16 bytes taken from plaintext, nonce
    and key): Argon2id and AES-GCM themselves are out of reach of
    evaluation in the logic;
  \<^item> \<^verbatim>\<open>filepath.Join\<close> puts a separator between its two arguments.
\<close>

subsection \<open>base64.StdEncoding\<close>

definition b64_alphabet :: string where
  "b64_alphabet = ''ABCDEFGHIJKLMNOPQRSTUVWXYZabcdefghijklmnopqrstuvwxyz0123456789+/''"

definition b64_char :: "bool \<Rightarrow> bool \<Rightarrow> bool \<Rightarrow> bool \<Rightarrow> bool \<Rightarrow> bool \<Rightarrow> char" where
  "b64_char b5 b4 b3 b2 b1 b0 =
     b64_alphabet ! ((if b5 then 32 else 0) + (if b4 then 16 else 0) + (if b3 then 8 else 0) +
                     (if b2 then 4 else 0) + (if b1 then 2 else 0) + (if b0 then 1 else 0))"

fun go_b64_encode :: "bytes \<Rightarrow> string" where
  "go_b64_encode [] = []"
| "go_b64_encode [Char a0 a1 a2 a3 a4 a5 a6 a7] =
     [b64_char a7 a6 a5 a4 a3 a2, b64_char a1 a0 False False False False, CHR ''='', CHR ''='']"
| "go_b64_encode [Char a0 a1 a2 a3 a4 a5 a6 a7, Char b0 b1 b2 b3 b4 b5 b6 b7] =
     [b64_char a7 a6 a5 a4 a3 a2, b64_char a1 a0 b7 b6 b5 b4, b64_char b3 b2 b1 b0 False False,
      CHR ''='']"
| "go_b64_encode (Char a0 a1 a2 a3 a4 a5 a6 a7 # Char b0 b1 b2 b3 b4 b5 b6 b7 #
                  Char c0 c1 c2 c3 c4 c5 c6 c7 # rest) =
     [b64_char a7 a6 a5 a4 a3 a2, b64_char a1 a0 b7 b6 b5 b4, b64_char b3 b2 b1 b0 c7 c6,
      b64_char c5 c4 c3 c2 c1 c0] @ go_b64_encode rest"

fun index_from :: "nat \<Rightarrow> 'a \<Rightarrow> 'a list \<Rightarrow> nat option" where
  "index_from i x [] = None"
| "index_from i x (y # ys) = (if x = y then Some i else index_from (i + 1) x ys)"

definition bits6 :: "nat \<Rightarrow> bool list" where
  "bits6 n = [odd (n div 32), odd (n div 16), odd (n div 8), odd (n div 4), odd (n div 2), odd n]"

fun sextets :: "string \<Rightarrow> bool list option" where
  "sextets [] = Some []"
| "sextets (c # cs) =
     (case (index_from 0 c b64_alphabet, sextets cs) of
        (Some n, Some bs) \<Rightarrow> Some (bits6 n @ bs)
      | _ \<Rightarrow> None)"

text \<open>Whole groups of eight bits; the bits left over are dropped.\<close>

fun bytes_of_bits :: "bool list \<Rightarrow> bytes" where
  "bytes_of_bits (b7 # b6 # b5 # b4 # b3 # b2 # b1 # b0 # bs) =
     Char b0 b1 b2 b3 b4 b5 b6 b7 # bytes_of_bits bs"
| "bytes_of_bits bs = []"

fun b64_quanta :: "string \<Rightarrow> bool list option" where
  "b64_quanta [] = Some []"
| "b64_quanta [a, b, c, d] =
     (if c = CHR ''='' \<and> d = CHR ''='' then sextets [a, b]
      else if d = CHR ''='' then sextets [a, b, c]
      else sextets [a, b, c, d])"
| "b64_quanta (a # b # c # d # cs) =
     (case (sextets [a, b, c, d], b64_quanta cs) of
        (Some x, Some y) \<Rightarrow> Some (x @ y)
      | _ \<Rightarrow> None)"
| "b64_quanta cs = None"

definition go_b64_decode :: "string \<Rightarrow> bytes option" where
  "go_b64_decode s =
     map_option bytes_of_bits
       (b64_quanta (filter (\<lambda>c. c \<noteq> CHR 0x0A \<and> c \<noteq> CHR 0x0D) s))"

subsection \<open>encoding/json: writing\<close>

definition BSL :: char where "BSL = CHR 0x5C"
definition DQ :: char where "DQ = CHR 0x22"
definition LF :: char where "LF = CHR 0x0A"

definition hex_digit :: "nat \<Rightarrow> char" where
  "hex_digit n = ''0123456789abcdef'' ! n"

definition utf8_cont :: "nat \<Rightarrow> bool" where
  "utf8_cont b = (128 \<le> b \<and> b \<le> 191)"

text \<open>
  The length of the UTF-8 encoding at the head of the bytes, 0 when there is none
  (\<^verbatim>\<open>utf8.DecodeRuneInString\<close> returning \<^verbatim>\<open>RuneError\<close> with size 1).
\<close>

fun rune_len :: "nat list \<Rightarrow> nat" where
  "rune_len [] = 0"
| "rune_len (b # bs) =
     (if b < 128 then 1
      else if 194 \<le> b \<and> b \<le> 223 then
        (case bs of c # _ \<Rightarrow> if utf8_cont c then 2 else 0 | _ \<Rightarrow> 0)
      else if 224 \<le> b \<and> b \<le> 239 then
        (case bs of
           c # d # _ \<Rightarrow>
             if (if b = 224 then 160 else 128) \<le> c \<and> c \<le> (if b = 237 then 159 else 191) \<and>
                utf8_cont d
             then 3 else 0
         | _ \<Rightarrow> 0)
      else if 240 \<le> b \<and> b \<le> 244 then
        (case bs of
           c # d # e # _ \<Rightarrow>
             if (if b = 240 then 144 else 128) \<le> c \<and> c \<le> (if b = 244 then 143 else 191) \<and>
                utf8_cont d \<and> utf8_cont e
             then 4 else 0
         | _ \<Rightarrow> 0)
      else 0)"

definition json_escape_ascii :: "char \<Rightarrow> string" where
  "json_escape_ascii c =
     (let b = (of_char c :: nat) in
      if c = BSL \<or> c = DQ then [BSL, c]
      else if b = 8 then [BSL, CHR ''b'']
      else if b = 12 then [BSL, CHR ''f'']
      else if b = 10 then [BSL, CHR ''n'']
      else if b = 13 then [BSL, CHR ''r'']
      else if b = 9 then [BSL, CHR ''t'']
      else if b < 32 \<or> c = CHR ''<'' \<or> c = CHR ''>'' \<or> c = CHR ''&'' then
        [BSL, CHR ''u'', CHR ''0'', CHR ''0'', hex_digit (b div 16), hex_digit (b mod 16)]
      else [c])"

text \<open>
  The first argument counts the bytes of the current rune that are still to be copied.
  A byte that starts no valid encoding is written as the escape of U+FFFD.
\<close>

fun json_escape :: "nat \<Rightarrow> string \<Rightarrow> string" where
  "json_escape k [] = []"
| "json_escape (Suc k) (c # cs) = c # json_escape k cs"
| "json_escape 0 (c # cs) =
     (if (of_char c :: nat) < 128 then json_escape_ascii c @ json_escape 0 cs
      else case rune_len (map of_char (take 4 (c # cs))) of
             0 \<Rightarrow> [BSL, CHR ''u'', CHR ''f'', CHR ''f'', CHR ''f'', CHR ''d''] @ json_escape 0 cs
           | Suc n \<Rightarrow>
               if take 3 (c # cs) = [CHR 0xE2, CHR 0x80, CHR 0xA8] then
                 [BSL, CHR ''u'', CHR ''2'', CHR ''0'', CHR ''2'', CHR ''8''] @
                 json_escape 0 (drop 2 cs)
               else if take 3 (c # cs) = [CHR 0xE2, CHR 0x80, CHR 0xA9] then
                 [BSL, CHR ''u'', CHR ''2'', CHR ''0'', CHR ''2'', CHR ''9''] @
                 json_escape 0 (drop 2 cs)
               else c # json_escape n cs)"

definition json_string :: "string \<Rightarrow> string" where
  "json_string s = [DQ] @ json_escape 0 s @ [DQ]"

fun dec_nat :: "nat \<Rightarrow> string" where
  "dec_nat n =
     (if n < 10 then [''0123456789'' ! n] else dec_nat (n div 10) @ [''0123456789'' ! (n mod 10)])"

declare dec_nat.simps [simp del]

definition dec_int :: "int \<Rightarrow> string" where
  "dec_int i = (if i < 0 then ''-'' @ dec_nat (nat (- i)) else dec_nat (nat i))"

fun join_with :: "string \<Rightarrow> string list \<Rightarrow> string" where
  "join_with sep [] = []"
| "join_with sep [x] = x"
| "join_with sep (x # y # ys) = x @ sep @ join_with sep (y # ys)"

text \<open>\<^verbatim>\<open>json.Marshal(data)\<close> for a \<^verbatim>\<open>*SecretsData\<close>; it has no error for this type.\<close>

definition go_json_Marshal_SecretsData :: "SecretsData \<Rightarrow> bytes option" where
  "go_json_Marshal_SecretsData d =
     Some (''{'' @ json_string ''secrets'' @ '':'' @
           (case Secrets d of
              None \<Rightarrow> ''null''
            | Some m \<Rightarrow>
                ''{'' @
                join_with '',''
                  (map (\<lambda>k. json_string k @ '':'' @ json_string (the (m k)))
                     (sorted_list_of_set (dom m))) @
                ''}'') @
           ''}'')"

text \<open>\<^verbatim>\<open>json.MarshalIndent(vault, "", "  ")\<close> for a \<^verbatim>\<open>VaultFile\<close>.\<close>

definition go_json_MarshalIndent_VaultFile :: "VaultFile \<Rightarrow> bytes option" where
  "go_json_MarshalIndent_VaultFile v =
     Some (''{'' @ [LF] @
           ''  '' @ json_string ''version'' @ '': '' @ dec_int (Version v) @ '','' @ [LF] @
           ''  '' @ json_string ''salt'' @ '': '' @ json_string (Salt v) @ '','' @ [LF] @
           ''  '' @ json_string ''nonce'' @ '': '' @ json_string (Nonce v) @ '','' @ [LF] @
           ''  '' @ json_string ''data'' @ '': '' @ json_string (Data v) @ [LF] @
           ''}'')"

subsection \<open>encoding/json: reading\<close>

datatype jtoken = LBrace | RBrace | Colon | Comma | Str string | Lit string

datatype jmode = Outside | InString string bool | InLiteral string

text \<open>
  The tokens of a text: the contents of a string are kept as written (escapes included),
  a literal is a run of other characters (a number, \<^verbatim>\<open>null\<close>).
\<close>

definition jspace :: "char \<Rightarrow> bool" where
  "jspace c = (c = CHR '' '' \<or> c = CHR 0x09 \<or> c = CHR 0x0A \<or> c = CHR 0x0D)"

definition jpunct :: "char \<Rightarrow> jtoken option" where
  "jpunct c =
     (if c = CHR ''{'' then Some LBrace
      else if c = CHR ''}'' then Some RBrace
      else if c = CHR '':'' then Some Colon
      else if c = CHR '','' then Some Comma
      else None)"

fun jlex :: "jmode \<Rightarrow> string \<Rightarrow> jtoken list option" where
  "jlex Outside [] = Some []"
| "jlex (InLiteral acc) [] = Some [Lit acc]"
| "jlex (InString acc esc) [] = None"
| "jlex (InString acc True) (c # cs) = jlex (InString (acc @ [c]) False) cs"
| "jlex (InString acc False) (c # cs) =
     (if c = DQ then map_option (Cons (Str acc)) (jlex Outside cs)
      else if c = BSL then jlex (InString (acc @ [c]) True) cs
      else if (of_char c :: nat) < 32 then None
      else jlex (InString (acc @ [c]) False) cs)"
| "jlex (InLiteral acc) (c # cs) =
     (if c = DQ then map_option (Cons (Lit acc)) (jlex (InString [] False) cs)
      else if jspace c then map_option (Cons (Lit acc)) (jlex Outside cs)
      else case jpunct c of
             Some t \<Rightarrow> map_option (\<lambda>ts. Lit acc # t # ts) (jlex Outside cs)
           | None \<Rightarrow> jlex (InLiteral (acc @ [c])) cs)"
| "jlex Outside (c # cs) =
     (if c = DQ then jlex (InString [] False) cs
      else if jspace c then jlex Outside cs
      else case jpunct c of
             Some t \<Rightarrow> map_option (Cons t) (jlex Outside cs)
           | None \<Rightarrow> jlex (InLiteral [c]) cs)"

definition hex_value :: "char \<Rightarrow> nat option" where
  "hex_value c =
     (case index_from 0 c ''0123456789abcdef'' of
        Some n \<Rightarrow> Some n
      | None \<Rightarrow> map_option (\<lambda>n. n + 10) (index_from 0 c ''ABCDEF''))"

definition byte :: "nat \<Rightarrow> char" where
  "byte n = Char (odd n) (odd (n div 2)) (odd (n div 4)) (odd (n div 8))
                 (odd (n div 16)) (odd (n div 32)) (odd (n div 64)) (odd (n div 128))"

text \<open>The UTF-8 encoding of a code point below \<^verbatim>\<open>0x10000\<close>.\<close>

definition utf8_encode :: "nat \<Rightarrow> string" where
  "utf8_encode n =
     (if n < 128 then [byte n]
      else if n < 2048 then [byte (192 + n div 64), byte (128 + n mod 64)]
      else [byte (224 + n div 4096), byte (128 + n div 64 mod 64), byte (128 + n mod 64)])"

definition simple_escape :: "char \<Rightarrow> char option" where
  "simple_escape e =
     (if e = DQ \<or> e = BSL \<or> e = CHR ''/'' then Some e
      else if e = CHR ''b'' then Some (CHR 0x08)
      else if e = CHR ''f'' then Some (CHR 0x0C)
      else if e = CHR ''n'' then Some (CHR 0x0A)
      else if e = CHR ''r'' then Some (CHR 0x0D)
      else if e = CHR ''t'' then Some (CHR 0x09)
      else None)"

text \<open>
  The string that the contents of a JSON string stand for. Surrogate escapes, which
  \<^verbatim>\<open>json.Marshal\<close> never writes, are not read.
\<close>

fun json_unescape :: "string \<Rightarrow> string option" where
  "json_unescape [] = Some []"
| "json_unescape (c # cs) =
     (if c \<noteq> BSL then map_option (Cons c) (json_unescape cs)
      else case cs of
             [] \<Rightarrow> None
           | e # cs' \<Rightarrow>
               if e \<noteq> CHR ''u'' then
                 (case (simple_escape e, json_unescape cs') of
                    (Some x, Some r) \<Rightarrow> Some (x # r)
                  | _ \<Rightarrow> None)
               else
                 (case cs' of
                    h1 # h2 # h3 # h4 # cs'' \<Rightarrow>
                      (case (hex_value h1, hex_value h2, hex_value h3, hex_value h4,
                             json_unescape cs'') of
                         (Some a, Some b, Some c, Some d, Some r) \<Rightarrow>
                           (let n = 4096 * a + 256 * b + 16 * c + d in
                            if 55296 \<le> n \<and> n < 57344 then None else Some (utf8_encode n @ r))
                       | _ \<Rightarrow> None)
                  | _ \<Rightarrow> None))"

fun digits_value :: "nat \<Rightarrow> string \<Rightarrow> nat option" where
  "digits_value acc [] = Some acc"
| "digits_value acc (c # cs) =
     (case index_from 0 c ''0123456789'' of
        None \<Rightarrow> None
      | Some d \<Rightarrow> digits_value (10 * acc + d) cs)"

definition int_value :: "string \<Rightarrow> int option" where
  "int_value s =
     (case s of
        [] \<Rightarrow> None
      | c # cs \<Rightarrow>
          if c = CHR ''-'' then
            (if cs = [] then None else map_option (\<lambda>n. - int n) (digits_value 0 cs))
          else map_option int (digits_value 0 s))"

definition expect :: "jtoken \<Rightarrow> jtoken list \<Rightarrow> jtoken list option" where
  "expect t ts = (case ts of [] \<Rightarrow> None | x # xs \<Rightarrow> if x = t then Some xs else None)"

definition expect_key :: "string \<Rightarrow> jtoken list \<Rightarrow> jtoken list option" where
  "expect_key k ts = Option.bind (expect (Str k) ts) (expect Colon)"

definition read_str :: "jtoken list \<Rightarrow> (string \<times> jtoken list) option" where
  "read_str ts =
     (case ts of
        Str raw # xs \<Rightarrow> map_option (\<lambda>s. (s, xs)) (json_unescape raw)
      | _ \<Rightarrow> None)"

definition read_int :: "jtoken list \<Rightarrow> (int \<times> jtoken list) option" where
  "read_int ts =
     (case ts of
        Lit l # xs \<Rightarrow> map_option (\<lambda>i. (i, xs)) (int_value l)
      | _ \<Rightarrow> None)"

definition go_json_Unmarshal_VaultFile :: "bytes \<Rightarrow> VaultFile option" where
  "go_json_Unmarshal_VaultFile d =
     Option.bind (jlex Outside d) (\<lambda>t0.
     Option.bind (expect LBrace t0) (\<lambda>t1.
     Option.bind (expect_key ''version'' t1) (\<lambda>t2.
     Option.bind (read_int t2) (\<lambda>(v, t3).
     Option.bind (expect Comma t3) (\<lambda>t4.
     Option.bind (expect_key ''salt'' t4) (\<lambda>t5.
     Option.bind (read_str t5) (\<lambda>(s, t6).
     Option.bind (expect Comma t6) (\<lambda>t7.
     Option.bind (expect_key ''nonce'' t7) (\<lambda>t8.
     Option.bind (read_str t8) (\<lambda>(n, t9).
     Option.bind (expect Comma t9) (\<lambda>t10.
     Option.bind (expect_key ''data'' t10) (\<lambda>t11.
     Option.bind (read_str t11) (\<lambda>(c, t12).
       if t12 = [RBrace] then Some \<lparr>Version = v, Salt = s, Nonce = n, Data = c\<rparr>
       else None)))))))))))))"

text \<open>The members of an object of strings, up to the two closing braces.\<close>

fun jmembers :: "jtoken list \<Rightarrow> (string \<times> string) list option" where
  "jmembers (k # c # v # t # ts) =
     (case (read_str [k], read_str [v]) of
        (Some (k', _), Some (v', _)) \<Rightarrow>
          if c \<noteq> Colon then None
          else if t = RBrace then (if ts = [RBrace] then Some [(k', v')] else None)
          else if t = Comma then map_option (Cons (k', v')) (jmembers ts)
          else None
      | _ \<Rightarrow> None)"
| "jmembers ts = None"

definition go_json_Unmarshal_SecretsData :: "bytes \<Rightarrow> SecretsData option" where
  "go_json_Unmarshal_SecretsData d =
     Option.bind (jlex Outside d) (\<lambda>t0.
     Option.bind (expect LBrace t0) (\<lambda>t1.
     Option.bind (expect_key ''secrets'' t1) (\<lambda>t2.
       if t2 = [Lit ''null'', RBrace] then Some \<lparr>Secrets = None\<rparr>
       else Option.bind (expect LBrace t2) (\<lambda>t3.
         if t3 = [RBrace, RBrace] then Some \<lparr>Secrets = Some Map.empty\<rparr>
         else map_option (\<lambda>kvs. \<lparr>Secrets = Some (map_of (rev kvs))\<rparr>) (jmembers t3)))))"

subsection \<open>Stand-ins for Argon2id and AES-GCM\<close>

definition standin_IDKey :: "bytes \<Rightarrow> bytes \<Rightarrow> nat \<Rightarrow> nat \<Rightarrow> nat \<Rightarrow> nat \<Rightarrow> bytes" where
  "standin_IDKey password salt t m p keyLen =
     take keyLen (password @ salt @ replicate keyLen (CHR ''k''))"

definition standin_tag :: "bytes \<Rightarrow> bytes \<Rightarrow> bytes \<Rightarrow> bytes" where
  "standin_tag key nonce plaintext =
     take 16 (take 4 (rev plaintext) @ take 4 nonce @ key @ replicate 16 (CHR ''t''))"

definition standin_seal :: "bytes \<Rightarrow> bytes \<Rightarrow> bytes \<Rightarrow> bytes" where
  "standin_seal key nonce plaintext = plaintext @ standin_tag key nonce plaintext"

definition standin_open :: "bytes \<Rightarrow> bytes \<Rightarrow> bytes \<Rightarrow> bytes option" where
  "standin_open key nonce ciphertext =
     (if length ciphertext < 16 then None
      else let plaintext = take (length ciphertext - 16) ciphertext
           in if drop (length ciphertext - 16) ciphertext = standin_tag key nonce plaintext
              then Some plaintext else None)"

definition ref_lib :: lib where
  "ref_lib =
     \<lparr>filepath_Join = (\<lambda>dir name. dir @ ''/'' @ name),
      argon2_IDKey = standin_IDKey,
      aes_gcm_seal = standin_seal,
      aes_gcm_open = standin_open,
      base64_EncodeToString = go_b64_encode,
      base64_DecodeString = go_b64_decode,
      json_Marshal_SecretsData = go_json_Marshal_SecretsData,
      json_Unmarshal_SecretsData = go_json_Unmarshal_SecretsData,
      json_MarshalIndent_VaultFile = go_json_MarshalIndent_VaultFile,
      json_Unmarshal_VaultFile = go_json_Unmarshal_VaultFile\<rparr>"

section \<open>Machines for evaluation\<close>

text \<open>
  A machine with no vault yet and 68 bytes of randomness to hand out; the machine after
  \<^verbatim>\<open>secrets init\<close> with the password \<^verbatim>\<open>longpassword1\<close> (salt
  \<^verbatim>\<open>0123456789abcdef\<close>, nonce \<^verbatim>\<open>NONCE-000001\<close>); and that machine with a disk that
  fails 22 bytes into a write.
\<close>

definition fresh_machine :: world where
  "fresh_machine =
     \<lparr>home = Some ''/home/u'', files = Map.empty,
      entropy = ''0123456789abcdefNONCE-000001fedcba9876543210NONCE-000002NONCE-000003'',
      tty = [], stat_fault = False, read_fault = False, write_fault = NoFault\<rparr>"

definition vault_path :: string where
  "vault_path = ''/home/u/.secrets-vault.json''"

definition created_machine :: world where
  "created_machine = snd (CreateVault ref_lib fresh_machine ''longpassword1'')"


text \<open>
  The machine after \<^verbatim>\<open>secrets set api_key\<close> with the value \<^verbatim>\<open>xyz123\<close>, and a machine
  whose vault file is a well-formed envelope with a five-byte nonce.
\<close>

definition stocked_machine :: world where
  "stocked_machine =
     snd (cmdSet ref_lib (created_machine\<lparr>tty := [''longpassword1'', ''xyz123'']\<rparr>) ''api_key'')"

definition short_nonce_machine :: world where
  "short_nonce_machine =
     fresh_machine
       \<lparr>files := [vault_path \<mapsto>
          the (go_json_MarshalIndent_VaultFile
                 \<lparr>Version = 1, Salt = go_b64_encode ''0123456789abcdef'',
                  Nonce = go_b64_encode ''NONCE'', Data = go_b64_encode ''''\<rparr>)]\<rparr>"

text \<open>
  The packages invert each other on the values of one save: what \<^verbatim>\<open>json.Marshal\<close>
  writes for the secrets \<^verbatim>\<open>json.Unmarshal\<close> reads back as the same secrets, opening what
  was sealed gives the plaintext, decoding the base64 of the salt, the nonce and the
  ciphertext gives them back, and the envelope is read back from its serialization.
\<close>

definition packages_invert :: "lib \<Rightarrow> SecretsData \<Rightarrow> string \<Rightarrow> bytes \<Rightarrow> bytes \<Rightarrow> bool" where
  "packages_invert L d password salt nonce =
     (\<exists>plaintext fileData.
        json_Marshal_SecretsData L d = Some plaintext \<and>
        json_Unmarshal_SecretsData L plaintext = Some d \<and>
        aes_gcm_open L (DeriveKey L password salt) nonce
          (aes_gcm_seal L (DeriveKey L password salt) nonce plaintext) = Some plaintext \<and>
        base64_DecodeString L (base64_EncodeToString L salt) = Some salt \<and>
        base64_DecodeString L (base64_EncodeToString L nonce) = Some nonce \<and>
        base64_DecodeString L (base64_EncodeToString L
          (aes_gcm_seal L (DeriveKey L password salt) nonce plaintext))
          = Some (aes_gcm_seal L (DeriveKey L password salt) nonce plaintext) \<and>
        json_MarshalIndent_VaultFile L (envelope_of L password salt nonce plaintext)
          = Some fileData \<and>
        json_Unmarshal_VaultFile L fileData = Some (envelope_of L password salt nonce plaintext))"

section \<open>How Encrypt and SaveVault run\<close>

lemma Encrypt_cases:
  "Encrypt L w plaintext key =
     (if \<not> aes_NewCipher key then (Fails CreateCipherError, w)
      else if length (entropy w) < 12 then (Fails GenerateNonceError, w)
      else (Returns (take 12 (entropy w), aes_gcm_seal L key (take 12 (entropy w)) plaintext),
            w\<lparr>entropy := drop 12 (entropy w)\<rparr>))"
  by (simp add: Encrypt_def rand_Read_def NonceSize_def gcm_Seal_def)

lemma SaveVault_cases:
  "SaveVault L w data password salt =
     (case GetVaultPath L w of
        Fails e \<Rightarrow> (Fails e, w)
      | Panics p \<Rightarrow> (Panics p, w)
      | Returns path \<Rightarrow>
     (case json_Marshal_SecretsData L data of
        None \<Rightarrow> (Fails SerializeSecretsError, w)
      | Some plaintext \<Rightarrow>
          if \<not> aes_NewCipher (DeriveKey L password salt)
          then (Fails (EncryptVaultError CreateCipherError), w)
          else if length (entropy w) < 12
          then (Fails (EncryptVaultError GenerateNonceError), w)
          else
     (case json_MarshalIndent_VaultFile L
             (envelope_of L password salt (take 12 (entropy w)) plaintext) of
        None \<Rightarrow> (Fails SerializeVaultError, w\<lparr>entropy := drop 12 (entropy w)\<rparr>)
      | Some fileData \<Rightarrow>
     (case write_fault w of
        OpenFault \<Rightarrow> (Fails WriteVaultFileError, w\<lparr>entropy := drop 12 (entropy w)\<rparr>)
      | WriteFault n \<Rightarrow>
          (Fails WriteVaultFileError,
           w\<lparr>entropy := drop 12 (entropy w), files := (files w)(path \<mapsto> take n fileData)\<rparr>)
      | NoFault \<Rightarrow>
          (Returns (),
           w\<lparr>entropy := drop 12 (entropy w), files := (files w)(path \<mapsto> fileData)\<rparr>)))))"
  by (simp add: SaveVault_def Encrypt_cases envelope_of_def os_WriteFile_def
           split: go.split option.split write_fault.split)

lemma CreateVault_cases:
  "CreateVault L w password =
     (if length (entropy w) < 16 then (Fails GenerateSaltError, w)
      else SaveVault L (w\<lparr>entropy := drop 16 (entropy w)\<rparr>) \<lparr>Secrets = Some Map.empty\<rparr> password
             (take 16 (entropy w)))"
  by (simp add: CreateVault_def GenerateSalt_def rand_Read_def SaltSize_def)

lemma GetVaultPath_entropy [simp]: "GetVaultPath L (w\<lparr>entropy := x\<rparr>) = GetVaultPath L w"
  by (simp add: GetVaultPath_def)

lemma GetVaultPath_tty [simp]: "GetVaultPath L (w\<lparr>tty := x\<rparr>) = GetVaultPath L w"
  by (simp add: GetVaultPath_def)

lemma os_ReadFile_tty [simp]: "os_ReadFile (w\<lparr>tty := x\<rparr>) path = os_ReadFile w path"
  by (simp add: os_ReadFile_def)

lemma LoadVault_tty [simp]: "LoadVault L (w\<lparr>tty := x\<rparr>) password = LoadVault L w password"
  by (simp add: LoadVault_def split: go.split)

lemma SaveVault_not_exists: "fst (SaveVault L w d password salt) \<noteq> Fails VaultAlreadyExists"
  by (auto simp: SaveVault_cases GetVaultPath_def
           split: go.split option.split write_fault.split)

lemma LoadVault_of_file:
  assumes "GetVaultPath L w = Returns path" "os_ReadFile w path = Some fileData"
    "json_Unmarshal_VaultFile L fileData = Some (envelope_of L password salt nonce plaintext)"
    "base64_DecodeString L (base64_EncodeToString L salt) = Some salt"
    "base64_DecodeString L (base64_EncodeToString L nonce) = Some nonce"
    "base64_DecodeString L (base64_EncodeToString L
          (aes_gcm_seal L (DeriveKey L password salt) nonce plaintext))
          = Some (aes_gcm_seal L (DeriveKey L password salt) nonce plaintext)"
  shows "LoadVault L w password' =
     (case Decrypt L (aes_gcm_seal L (DeriveKey L password salt) nonce plaintext) nonce
             (DeriveKey L password' salt) of
        Fails e \<Rightarrow> Fails (DecryptVaultError e)
      | Panics p \<Rightarrow> Panics p
      | Returns pt \<Rightarrow>
          (case json_Unmarshal_SecretsData L pt of
             None \<Rightarrow> Fails ParseSecretsError
           | Some secrets \<Rightarrow> Returns (secrets, salt)))"
  using assms by (simp add: LoadVault_def envelope_of_def)

lemma SaveVault_Returns:
  assumes "SaveVault L w d password salt = (Returns (), w')"
  obtains path plaintext fileData where
    "GetVaultPath L w = Returns path"
    "json_Marshal_SecretsData L d = Some plaintext"
    "aes_NewCipher (DeriveKey L password salt)"
    "12 \<le> length (entropy w)"
    "json_MarshalIndent_VaultFile L
       (envelope_of L password salt (take 12 (entropy w)) plaintext) = Some fileData"
    "w' = w\<lparr>entropy := drop 12 (entropy w), files := (files w)(path \<mapsto> fileData)\<rparr>"
  using assms
  by (auto simp: SaveVault_cases split: go.splits option.splits if_splits write_fault.splits)

lemma GetVaultPath_files [simp]: "GetVaultPath L (w\<lparr>files := x\<rparr>) = GetVaultPath L w"
  by (simp add: GetVaultPath_def)

lemma base64_distinct:
  assumes "base64_DecodeString L (base64_EncodeToString L a) = Some a"
    and "base64_DecodeString L (base64_EncodeToString L b) = Some b"
    and "a \<noteq> b"
  shows "base64_EncodeToString L a \<noteq> base64_EncodeToString L b"
  using assms by auto

section \<open>Evaluation on the machines\<close>

lemmas model_defs = CreateVault_def SaveVault_def LoadVault_def GenerateSalt_def Encrypt_def
  Decrypt_def DeriveKey_def GetVaultPath_def VaultExists_def os_WriteFile_def os_ReadFile_def
  os_Stat_def rand_Read_def readPassword_def aes_NewCipher_def gcm_Seal_def gcm_Open_def
  SaltSize_def NonceSize_def KeySize_def ArgonTime_def ArgonMem_def ArgonThreads_def
  VaultFileName_def cmdInit_def cmdSet_def cmdDelete_def

lemmas ref_defs = ref_lib_def standin_IDKey_def standin_tag_def standin_seal_def
  standin_open_def go_b64_decode_def b64_char_def b64_alphabet_def bits6_def
  go_json_Marshal_SecretsData_def go_json_MarshalIndent_VaultFile_def
  go_json_Unmarshal_VaultFile_def go_json_Unmarshal_SecretsData_def json_string_def
  json_escape_ascii_def BSL_def DQ_def LF_def hex_digit_def utf8_cont_def dec_int_def
  dec_nat.simps jspace_def jpunct_def hex_value_def byte_def utf8_encode_def
  simple_escape_def int_value_def expect_def expect_key_def read_str_def read_int_def

lemma created_machine_eq:
  "created_machine =
     \<lparr>home = Some ''/home/u'',
      files = [vault_path \<mapsto> the (go_json_MarshalIndent_VaultFile
                 (envelope_of ref_lib ''longpassword1'' ''0123456789abcdef'' ''NONCE-000001''
                    (the (go_json_Marshal_SecretsData \<lparr>Secrets = Some Map.empty\<rparr>))))],
      entropy = ''fedcba9876543210NONCE-000002NONCE-000003'',
      tty = [], stat_fault = False, read_fault = False, write_fault = NoFault\<rparr>"
  by (simp add: created_machine_def fresh_machine_def vault_path_def envelope_of_def
        model_defs ref_defs)

lemma VaultExists_created: "VaultExists ref_lib (created_machine\<lparr>tty := t\<rparr>) = Returns True"
  by (simp add: created_machine_eq VaultExists_def GetVaultPath_def os_Stat_def ref_lib_def
        VaultFileName_def vault_path_def)

lemma LoadVault_created:
  "LoadVault ref_lib created_machine ''longpassword1''
     = Returns (\<lparr>Secrets = Some Map.empty\<rparr>, ''0123456789abcdef'')"
  by (simp add: created_machine_def fresh_machine_def model_defs ref_defs)

lemma stocked_machine_eq:
  "stocked_machine =
     \<lparr>home = Some ''/home/u'',
      files = [vault_path \<mapsto> the (go_json_MarshalIndent_VaultFile
                 (envelope_of ref_lib ''longpassword1'' ''0123456789abcdef'' ''fedcba987654''
                    (the (go_json_Marshal_SecretsData
                            \<lparr>Secrets = Some [''api_key'' \<mapsto> ''xyz123'']\<rparr>))))],
      entropy = ''3210NONCE-000002NONCE-000003'',
      tty = [], stat_fault = False, read_fault = False, write_fault = NoFault\<rparr>"
  unfolding stocked_machine_def
  by (simp add: cmdSet_def VaultExists_created LoadVault_created readPassword_def
        SaveVault_cases)
     (simp add: created_machine_eq GetVaultPath_def ref_lib_def VaultFileName_def vault_path_def
        DeriveKey_def standin_IDKey_def aes_NewCipher_def KeySize_def go_json_Marshal_SecretsData_def
        go_json_MarshalIndent_VaultFile_def)

lemma LoadVault_stocked:
  "LoadVault ref_lib stocked_machine ''longpassword1''
     = Returns (\<lparr>Secrets = Some [''api_key'' \<mapsto> ''xyz123'']\<rparr>, ''0123456789abcdef'')"
  by (simp add: stocked_machine_eq vault_path_def envelope_of_def model_defs ref_defs)

lemma packages_invert_stocked:
  "packages_invert ref_lib \<lparr>Secrets = Some [''api_key'' \<mapsto> ''xyz123'']\<rparr> ''longpassword1''
     ''0123456789abcdef'' ''fedcba987654''"
  by (simp add: packages_invert_def envelope_of_def DeriveKey_def KeySize_def ref_defs)

lemma SaveVault_stocked:
  "SaveVault ref_lib created_machine \<lparr>Secrets = Some [''api_key'' \<mapsto> ''xyz123'']\<rparr>
     ''longpassword1'' ''0123456789abcdef'' = (Returns (), stocked_machine)"
  by (simp add: SaveVault_cases stocked_machine_eq)
     (simp add: created_machine_eq GetVaultPath_def ref_lib_def VaultFileName_def vault_path_def
        DeriveKey_def standin_IDKey_def aes_NewCipher_def KeySize_def go_json_Marshal_SecretsData_def
        go_json_MarshalIndent_VaultFile_def)

section \<open>Key derivation\<close>




section \<open>Creating a vault where one exists\<close>

text \<open>
  Claim C1 says that \<open>CreateVault\<close> itself fails with \<open>VaultAlreadyExists\<close> on an
  existing vault file and leaves it untouched. It does not: on the machine that already
  holds the vault of \<^verbatim>\<open>longpassword1\<close>, \<open>CreateVault\<close> with another password
  returns without error and the file has changed.
\<close>

theorem CreateVault_overwrites:
  "VaultExists ref_lib created_machine = Returns True \<and>
   fst (CreateVault ref_lib created_machine ''otherpassword'') = Returns () \<and>
   files (snd (CreateVault ref_lib created_machine ''otherpassword'')) vault_path
     \<noteq> files created_machine vault_path"
  by (simp add: created_machine_def fresh_machine_def vault_path_def model_defs ref_defs)

text \<open>
  Claim C1, amended. The check is the caller's: \<open>cmdInit\<close> (\<^verbatim>\<open>secrets init\<close>) fails
  with \<open>VaultAlreadyExists\<close> when the vault file exists and leaves the whole machine as
  it was, before any password is read. \<open>CreateVault\<close> has no such check: it never
  returns \<open>VaultAlreadyExists\<close>, and when it succeeds the vault path holds the
  envelope of the empty mapping under the fresh salt and nonce, whatever was there.
\<close>

theorem existing_vault_guard:
  "(VaultExists L w = Returns True \<longrightarrow> cmdInit L w = (Fails VaultAlreadyExists, w)) \<and>
   fst (CreateVault L w password) \<noteq> Fails VaultAlreadyExists \<and>
   (CreateVault L w password = (Returns (), w') \<and> GetVaultPath L w = Returns path \<longrightarrow>
      (\<exists>plaintext fileData.
         json_Marshal_SecretsData L \<lparr>Secrets = Some Map.empty\<rparr> = Some plaintext \<and>
         json_MarshalIndent_VaultFile L
           (envelope_of L password (take 16 (entropy w)) (take 12 (drop 16 (entropy w)))
              plaintext) = Some fileData \<and>
         files w' = (files w)(path \<mapsto> fileData)))"
proof (intro conjI impI)
  assume "VaultExists L w = Returns True"
  then show "cmdInit L w = (Fails VaultAlreadyExists, w)"
    by (simp add: cmdInit_def)
next
  show "fst (CreateVault L w password) \<noteq> Fails VaultAlreadyExists"
    by (simp add: CreateVault_cases SaveVault_not_exists)
next
  assume a: "CreateVault L w password = (Returns (), w') \<and> GetVaultPath L w = Returns path"
  then show "\<exists>plaintext fileData.
         json_Marshal_SecretsData L \<lparr>Secrets = Some Map.empty\<rparr> = Some plaintext \<and>
         json_MarshalIndent_VaultFile L
           (envelope_of L password (take 16 (entropy w)) (take 12 (drop 16 (entropy w)))
              plaintext) = Some fileData \<and>
         files w' = (files w)(path \<mapsto> fileData)"
    by (auto simp: CreateVault_cases SaveVault_cases
             split: if_splits option.splits write_fault.splits)
qed

theorem existing_vault_guard_witness:
  "VaultExists ref_lib created_machine = Returns True \<and>
   cmdInit ref_lib created_machine = (Fails VaultAlreadyExists, created_machine)"
proof -
  have h: "VaultExists ref_lib created_machine = Returns True"
    by (simp add: created_machine_eq VaultExists_def GetVaultPath_def os_Stat_def ref_lib_def
          VaultFileName_def vault_path_def)
  show ?thesis
    using h existing_vault_guard [of ref_lib created_machine] by simp
qed

section \<open>A save that fails\<close>




section \<open>Saving and loading again\<close>

text \<open>
  Claim C3 says that for every mapping, \<open>SaveVault\<close> followed by \<open>LoadVault\<close> with
  the same password returns exactly that mapping. A Go string is any sequence of bytes
  (a secret typed at the terminal, a key given on the command line), and
  \<^verbatim>\<open>json.Marshal\<close> coerces strings to valid UTF-8: the value made of the one byte
  \<^verbatim>\<open>0xFF\<close> is saved without error and comes back as the three bytes of U+FFFD.
\<close>

theorem roundtrip_invalid_utf8:
  "fst (SaveVault ref_lib created_machine \<lparr>Secrets = Some [''k'' \<mapsto> [CHR 0xFF]]\<rparr>
          ''longpassword1'' ''0123456789abcdef'') = Returns () \<and>
   LoadVault ref_lib
     (snd (SaveVault ref_lib created_machine \<lparr>Secrets = Some [''k'' \<mapsto> [CHR 0xFF]]\<rparr>
          ''longpassword1'' ''0123456789abcdef'')) ''longpassword1''
     = Returns (\<lparr>Secrets = Some [''k'' \<mapsto> [CHR 0xEF, CHR 0xBF, CHR 0xBD]]\<rparr>,
                ''0123456789abcdef'') \<and>
   [''k'' \<mapsto> [CHR 0xEF, CHR 0xBF, CHR 0xBD]] \<noteq> [''k'' \<mapsto> [CHR 0xFF]]"
proof -
  have "[''k'' \<mapsto> [CHR 0xEF, CHR 0xBF, CHR 0xBD]] ''k'' \<noteq> [''k'' \<mapsto> [CHR 0xFF]] ''k''"
    by simp
  then have "[''k'' \<mapsto> [CHR 0xEF, CHR 0xBF, CHR 0xBD]] \<noteq> [''k'' \<mapsto> [CHR 0xFF]]"
    by metis
  then show ?thesis
    by (simp add: created_machine_def fresh_machine_def vault_path_def model_defs ref_defs)
qed

text \<open>
  Claim C3, amended. For every mapping (the empty one and \<^verbatim>\<open>nil\<close> included), password
  and salt: when \<open>SaveVault\<close> succeeds, the file can be read, and the packages invert
  each other on the values of this save (for \<^verbatim>\<open>encoding/json\<close>: the names and values
  are valid UTF-8), \<open>LoadVault\<close> with the same password on the resulting machine
  returns exactly that mapping and that salt.
\<close>

theorem SaveVault_LoadVault_roundtrip:
  "SaveVault L w d password salt = (Returns (), w') \<and> \<not> read_fault w \<and>
   packages_invert L d password salt (take 12 (entropy w)) \<longrightarrow>
     LoadVault L w' password = Returns (d, salt)"
proof (intro impI, elim conjE)
  assume s: "SaveVault L w d password salt = (Returns (), w')"
    and r: "\<not> read_fault w"
    and p: "packages_invert L d password salt (take 12 (entropy w))"
  from s obtain path plaintext fileData where
    g: "GetVaultPath L w = Returns path"
    and m: "json_Marshal_SecretsData L d = Some plaintext"
    and k: "aes_NewCipher (DeriveKey L password salt)"
    and n: "12 \<le> length (entropy w)"
    and f: "json_MarshalIndent_VaultFile L
       (envelope_of L password salt (take 12 (entropy w)) plaintext) = Some fileData"
    and w': "w' = w\<lparr>entropy := drop 12 (entropy w), files := (files w)(path \<mapsto> fileData)\<rparr>"
    by (rule SaveVault_Returns)
  have g': "GetVaultPath L w' = Returns path"
    using g by (simp add: w' GetVaultPath_def)
  have rd: "os_ReadFile w' path = Some fileData"
    using r by (simp add: w' os_ReadFile_def)
  from p m f have
    u: "json_Unmarshal_SecretsData L plaintext = Some d"
    and o: "aes_gcm_open L (DeriveKey L password salt) (take 12 (entropy w))
          (aes_gcm_seal L (DeriveKey L password salt) (take 12 (entropy w)) plaintext)
          = Some plaintext"
    and b1: "base64_DecodeString L (base64_EncodeToString L salt) = Some salt"
    and b2: "base64_DecodeString L (base64_EncodeToString L (take 12 (entropy w)))
          = Some (take 12 (entropy w))"
    and b3: "base64_DecodeString L (base64_EncodeToString L
          (aes_gcm_seal L (DeriveKey L password salt) (take 12 (entropy w)) plaintext))
          = Some (aes_gcm_seal L (DeriveKey L password salt) (take 12 (entropy w)) plaintext)"
    and v: "json_Unmarshal_VaultFile L fileData
          = Some (envelope_of L password salt (take 12 (entropy w)) plaintext)"
    by (auto simp: packages_invert_def)
  have len: "length (take 12 (entropy w)) = 12"
    using n by (simp add: min_def)
  show "LoadVault L w' password = Returns (d, salt)"
    by (simp add: LoadVault_of_file [OF g' rd v b1 b2 b3] Decrypt_def gcm_Open_def k min_absorb2 [OF n] o u)
qed

theorem SaveVault_LoadVault_roundtrip_witness:
  "SaveVault ref_lib created_machine \<lparr>Secrets = Some [''api_key'' \<mapsto> ''xyz123'']\<rparr>
     ''longpassword1'' ''0123456789abcdef'' = (Returns (), stocked_machine) \<and>
   LoadVault ref_lib stocked_machine ''longpassword1''
     = Returns (\<lparr>Secrets = Some [''api_key'' \<mapsto> ''xyz123'']\<rparr>, ''0123456789abcdef'')"
proof -
  have r: "\<not> read_fault created_machine" and e: "take 12 (entropy created_machine) = ''fedcba987654''"
    by (simp_all add: created_machine_eq)
  show ?thesis
    using SaveVault_stocked r packages_invert_stocked
      SaveVault_LoadVault_roundtrip [of ref_lib created_machine
        "\<lparr>Secrets = Some [''api_key'' \<mapsto> ''xyz123'']\<rparr>" "''longpassword1''"
        "''0123456789abcdef''" stocked_machine]
    by (simp add: e)
qed

section \<open>Deleting a key that is not there\<close>

text \<open>
  Claim C8. On a machine whose vault exists and loads with the password typed, for a key
  that the mapping does not hold (a \<^verbatim>\<open>nil\<close> mapping holds none), \<open>cmdDelete\<close> fails
  with \<open>SecretNotFound\<close> before \<^verbatim>\<open>delete\<close> and \<open>SaveVault\<close> are reached: the
  machine is as it was but for the password line read from the terminal; in particular
  the files are unchanged and no randomness was drawn.
\<close>

theorem cmdDelete_absent_key:
  "VaultExists L w = Returns True \<and> tty w = password # rest \<and>
   LoadVault L w password = Returns (d, salt) \<and>
   (case Secrets d of None \<Rightarrow> None | Some m \<Rightarrow> m key) = None \<longrightarrow>
     cmdDelete L w key = (Fails (SecretNotFound key), w\<lparr>tty := rest\<rparr>) \<and>
     files (snd (cmdDelete L w key)) = files w \<and>
     entropy (snd (cmdDelete L w key)) = entropy w"
  by (simp add: cmdDelete_def readPassword_def)

theorem cmdDelete_absent_key_witness:
  "cmdDelete ref_lib (stocked_machine\<lparr>tty := [''longpassword1'']\<rparr>) ''db_key''
     = (Fails (SecretNotFound ''db_key''), stocked_machine) \<and>
   LoadVault ref_lib stocked_machine ''longpassword1''
     = Returns (\<lparr>Secrets = Some [''api_key'' \<mapsto> ''xyz123'']\<rparr>, ''0123456789abcdef'')"
proof -
  have e: "VaultExists ref_lib (stocked_machine\<lparr>tty := [''longpassword1'']\<rparr>) = Returns True"
    by (simp add: stocked_machine_eq VaultExists_def GetVaultPath_def os_Stat_def ref_lib_def
        VaultFileName_def vault_path_def)
  have t: "stocked_machine\<lparr>tty := [''longpassword1''], tty := []\<rparr> = stocked_machine"
    by (simp add: stocked_machine_eq)
  show ?thesis
    using e t LoadVault_stocked
      cmdDelete_absent_key [of ref_lib "stocked_machine\<lparr>tty := [''longpassword1'']\<rparr>"
        "''longpassword1''" "[]" "\<lparr>Secrets = Some [''api_key'' \<mapsto> ''xyz123'']\<rparr>"
        "''0123456789abcdef''" "''db_key''"]
    by simp
qed

section \<open>The keys of the mapping\<close>

text \<open>
  Claim C9 says that no key of the mapping is ever the empty string and that \<open>cmdSet\<close>
  never inserts one. \<^verbatim>\<open>main\<close> only checks that a key argument is present, and
  \<^verbatim>\<open>secrets set ""\<close> passes the empty string: on the machine with a new vault,
  \<open>cmdSet\<close> with the empty key reports the secret added, and the vault then loads with
  an entry under the empty key.
\<close>

theorem cmdSet_empty_key:
  "cmdSet ref_lib (created_machine\<lparr>tty := [''longpassword1'', ''xyz123'']\<rparr>) ''''
     = (Returns (SecretAdded ''''),
        snd (cmdSet ref_lib (created_machine\<lparr>tty := [''longpassword1'', ''xyz123'']\<rparr>) '''')) \<and>
   LoadVault ref_lib
     (snd (cmdSet ref_lib (created_machine\<lparr>tty := [''longpassword1'', ''xyz123'']\<rparr>) ''''))
     ''longpassword1''
     = Returns (\<lparr>Secrets = Some ['''' \<mapsto> ''xyz123'']\<rparr>, ''0123456789abcdef'')"
  by (simp add: created_machine_def fresh_machine_def vault_path_def model_defs ref_defs)

text \<open>
  Claim C9, amended. \<open>cmdSet\<close> stores the value under exactly the key it is given,
  any string, the empty one included: with the vault loaded as \<open>m\<close> and the value
  \<open>v\<close> read, it saves \<open>m(key \<mapsto> v)\<close>, whose keys are those of \<open>m\<close> and
  \<open>key\<close>, every other entry as it was. Nothing in the program inspects a key.
\<close>

theorem cmdSet_stores_given_key:
  "VaultExists L w = Returns True \<and> tty w = password # v # rest \<and>
   LoadVault L w password = Returns (d, salt) \<and> Secrets d = Some m \<longrightarrow>
     cmdSet L w key =
       (case SaveVault L (w\<lparr>tty := rest\<rparr>) \<lparr>Secrets = Some (m(key \<mapsto> v))\<rparr> password salt of
          (Returns u, w') \<Rightarrow>
            (Returns (if m key \<noteq> None then SecretUpdated key else SecretAdded key), w')
        | (Fails e, w') \<Rightarrow> (Fails e, w')
        | (Panics p, w') \<Rightarrow> (Panics p, w')) \<and>
     dom (m(key \<mapsto> v)) = insert key (dom m) \<and>
     (\<forall>k. k \<noteq> key \<longrightarrow> (m(key \<mapsto> v)) k = m k)"
  by (auto simp: cmdSet_def readPassword_def split: prod.splits go.splits)

theorem cmdSet_stores_given_key_witness:
  "cmdSet ref_lib (created_machine\<lparr>tty := [''longpassword1'', ''xyz123'']\<rparr>) ''api_key''
     = (Returns (SecretAdded ''api_key''), stocked_machine) \<and>
   LoadVault ref_lib stocked_machine ''longpassword1''
     = Returns (\<lparr>Secrets = Some [''api_key'' \<mapsto> ''xyz123'']\<rparr>, ''0123456789abcdef'')"
proof -
  have t: "created_machine\<lparr>tty := [''longpassword1'', ''xyz123''], tty := []\<rparr> = created_machine"
    by (simp add: created_machine_eq)
  show ?thesis
    using VaultExists_created [of "[''longpassword1'', ''xyz123'']"] LoadVault_created
      SaveVault_stocked LoadVault_stocked t
      cmdSet_stores_given_key [of ref_lib "created_machine\<lparr>tty := [''longpassword1'', ''xyz123'']\<rparr>"
        "''longpassword1''" "''xyz123''" "[]" "\<lparr>Secrets = Some Map.empty\<rparr>"
        "''0123456789abcdef''" Map.empty "''api_key''"]
    by simp
qed

section \<open>A nonce of the wrong length\<close>

text \<open>
  Claim C10 says that \<open>LoadVault\<close> returns an error on every file content and that
  decryption is defined for a nonce of any length. \<^verbatim>\<open>gcm.Open\<close> panics when the nonce
  is not 12 bytes long, and \<open>LoadVault\<close> passes it whatever the file's \<^verbatim>\<open>nonce\<close>
  field decodes to: on the machine whose envelope holds the base64 of a five-byte nonce,
  \<open>LoadVault\<close> panics.
\<close>

theorem LoadVault_short_nonce_panics:
  "LoadVault ref_lib short_nonce_machine ''longpassword1''
     = Panics ''crypto/cipher: incorrect nonce length given to GCM''"
  by (simp add: short_nonce_machine_def fresh_machine_def vault_path_def model_defs ref_defs)

lemma LoadVault_nonce_length:
  "GetVaultPath L w = Returns path \<Longrightarrow> os_ReadFile w path = Some fileData \<Longrightarrow>
   json_Unmarshal_VaultFile L fileData = Some v \<Longrightarrow>
   base64_DecodeString L (Salt v) = Some salt \<Longrightarrow>
   base64_DecodeString L (Nonce v) = Some nonce \<Longrightarrow>
   base64_DecodeString L (Data v) = Some ciphertext \<Longrightarrow>
   aes_NewCipher (DeriveKey L password salt) \<Longrightarrow> length nonce \<noteq> 12 \<Longrightarrow>
   LoadVault L w password = Panics ''crypto/cipher: incorrect nonce length given to GCM''"
  by (simp add: LoadVault_def Decrypt_def gcm_Open_def)

section \<open>The nonce of a save\<close>

text \<open>
  Claim C7. A \<open>SaveVault\<close> that succeeds has drawn its nonce from the random
  generator inside \<open>Encrypt\<close>: the envelope in the file is the one built with the
  next 12 bytes of randomness, exactly 12 bytes, and those bytes are consumed, so the next
  save draws the bytes after them. The save does not read the file it replaces: with any
  other files in place it succeeds with the same envelope. And an envelope built with a
  different draw (as any other save's is, with its own draw) has a different
  \<^verbatim>\<open>nonce\<close> field, base64 decoding what it encodes.
\<close>

theorem SaveVault_fresh_nonce:
  "SaveVault L w d password salt = (Returns (), w') \<and> GetVaultPath L w = Returns path \<longrightarrow>
     (\<exists>plaintext fileData.
        json_Marshal_SecretsData L d = Some plaintext \<and>
        json_MarshalIndent_VaultFile L
          (envelope_of L password salt (take 12 (entropy w)) plaintext) = Some fileData \<and>
        files w' path = Some fileData) \<and>
     length (take 12 (entropy w)) = 12 \<and>
     entropy w' = drop 12 (entropy w) \<and>
     (\<forall>fs. SaveVault L (w\<lparr>files := fs\<rparr>) d password salt
             = (Returns (), w'\<lparr>files := fs(path := files w' path)\<rparr>)) \<and>
     (\<forall>password2 salt2 nonce2 p1 p2.
        nonce2 \<noteq> take 12 (entropy w) \<and>
        base64_DecodeString L (base64_EncodeToString L nonce2) = Some nonce2 \<and>
        base64_DecodeString L (base64_EncodeToString L (take 12 (entropy w)))
          = Some (take 12 (entropy w)) \<longrightarrow>
        Nonce (envelope_of L password2 salt2 nonce2 p2)
          \<noteq> Nonce (envelope_of L password salt (take 12 (entropy w)) p1))"
proof (intro impI, elim conjE)
  assume s: "SaveVault L w d password salt = (Returns (), w')"
    and g: "GetVaultPath L w = Returns path"
  from s obtain path' plaintext fileData where
    g': "GetVaultPath L w = Returns path'"
    and m: "json_Marshal_SecretsData L d = Some plaintext"
    and k: "aes_NewCipher (DeriveKey L password salt)"
    and n: "12 \<le> length (entropy w)"
    and f: "json_MarshalIndent_VaultFile L
       (envelope_of L password salt (take 12 (entropy w)) plaintext) = Some fileData"
    and w': "w' = w\<lparr>entropy := drop 12 (entropy w), files := (files w)(path' \<mapsto> fileData)\<rparr>"
    by (rule SaveVault_Returns)
  from g g' have [simp]: "path' = path" by simp
  have 1: "\<exists>plaintext fileData.
        json_Marshal_SecretsData L d = Some plaintext \<and>
        json_MarshalIndent_VaultFile L
          (envelope_of L password salt (take 12 (entropy w)) plaintext) = Some fileData \<and>
        files w' path = Some fileData"
    using m f by (simp add: w')
  have 2: "length (take 12 (entropy w)) = 12"
    using n by (simp add: min_absorb2)
  have 3: "entropy w' = drop 12 (entropy w)"
    by (simp add: w')
  have 4: "\<forall>fs. SaveVault L (w\<lparr>files := fs\<rparr>) d password salt
             = (Returns (), w'\<lparr>files := fs(path := files w' path)\<rparr>)"
    using g m k n f
    by (simp add: SaveVault_cases w' not_less [symmetric] del: not_less split: write_fault.splits)
       (use s in \<open>auto simp: SaveVault_cases split: write_fault.splits if_splits\<close>)
  have 5: "\<forall>password2 salt2 nonce2 p1 p2.
        nonce2 \<noteq> take 12 (entropy w) \<and>
        base64_DecodeString L (base64_EncodeToString L nonce2) = Some nonce2 \<and>
        base64_DecodeString L (base64_EncodeToString L (take 12 (entropy w)))
          = Some (take 12 (entropy w)) \<longrightarrow>
        Nonce (envelope_of L password2 salt2 nonce2 p2)
          \<noteq> Nonce (envelope_of L password salt (take 12 (entropy w)) p1)"
    by (auto simp: envelope_of_def dest: base64_distinct)
  from 1 2 3 4 5 show "(\<exists>plaintext fileData.
        json_Marshal_SecretsData L d = Some plaintext \<and>
        json_MarshalIndent_VaultFile L
          (envelope_of L password salt (take 12 (entropy w)) plaintext) = Some fileData \<and>
        files w' path = Some fileData) \<and>
     length (take 12 (entropy w)) = 12 \<and>
     entropy w' = drop 12 (entropy w) \<and>
     (\<forall>fs. SaveVault L (w\<lparr>files := fs\<rparr>) d password salt
             = (Returns (), w'\<lparr>files := fs(path := files w' path)\<rparr>)) \<and>
     (\<forall>password2 salt2 nonce2 p1 p2.
        nonce2 \<noteq> take 12 (entropy w) \<and>
        base64_DecodeString L (base64_EncodeToString L nonce2) = Some nonce2 \<and>
        base64_DecodeString L (base64_EncodeToString L (take 12 (entropy w)))
          = Some (take 12 (entropy w)) \<longrightarrow>
        Nonce (envelope_of L password2 salt2 nonce2 p2)
          \<noteq> Nonce (envelope_of L password salt (take 12 (entropy w)) p1))"
    by blast
qed

theorem SaveVault_fresh_nonce_witness:
  "SaveVault ref_lib created_machine \<lparr>Secrets = Some [''api_key'' \<mapsto> ''xyz123'']\<rparr>
     ''longpassword1'' ''0123456789abcdef'' = (Returns (), stocked_machine) \<and>
   take 12 (entropy created_machine) = ''fedcba987654'' \<and>
   entropy stocked_machine = drop 12 (entropy created_machine) \<and>
   SaveVault ref_lib (created_machine\<lparr>files := Map.empty\<rparr>)
     \<lparr>Secrets = Some [''api_key'' \<mapsto> ''xyz123'']\<rparr> ''longpassword1'' ''0123456789abcdef''
     = (Returns (),
        stocked_machine\<lparr>files := Map.empty(vault_path := files stocked_machine vault_path)\<rparr>)"
proof -
  have p: "GetVaultPath ref_lib created_machine = Returns vault_path"
    by (simp add: created_machine_eq GetVaultPath_def ref_lib_def VaultFileName_def vault_path_def)
  have e: "take 12 (entropy created_machine) = ''fedcba987654''"
    by (simp add: created_machine_eq)
  show ?thesis
    using p e SaveVault_stocked
      SaveVault_fresh_nonce [of ref_lib created_machine
        "\<lparr>Secrets = Some [''api_key'' \<mapsto> ''xyz123'']\<rparr>" "''longpassword1''"
        "''0123456789abcdef''" stocked_machine vault_path]
    by simp
qed

end
